theory Spec2Isabelle
  imports Complex_Main "HOL-Library.Multiset" "HOL-Library.Product_Lexorder"
begin

section \<open>Python values, exceptions and the library\<close>

text \<open>
  The aggregator (\<^verbatim>\<open>prediction_aggregator.py\<close>) works on the values that
  \<^verbatim>\<open>json.loads\<close> returns. A \<^verbatim>\<open>str\<close> is a list of characters, a \<^verbatim>\<open>dict\<close> with string
  keys an association list (a key occurs once, as in a parsed object; a lookup takes
  the first entry).

  A Python \<^verbatim>\<open>float\<close> is a double: a finite value, an infinity or NaN, all of which
  \<^verbatim>\<open>json.loads\<close> and \<^verbatim>\<open>float\<close> deliver. A finite double is given by the real number
  it stands for; where an operation of the code rounds its result to a double, the
  rounding is the library's (\<open>rnd\<close> below).
\<close>

datatype pyfloat = Fin real | PosInf | NegInf | NaN

text \<open>
  The comparisons of doubles: every comparison with NaN is false; the others follow
  the position on the extended real line.
\<close>

fun fl_pos :: "pyfloat \<Rightarrow> int \<times> real" where
  "fl_pos NegInf = (- 1, 0)"
| "fl_pos (Fin r) = (0, r)"
| "fl_pos PosInf = (1, 0)"
| "fl_pos NaN = (0, 0)"

definition fl_less :: "pyfloat \<Rightarrow> pyfloat \<Rightarrow> bool" where
  "fl_less a b = (a \<noteq> NaN \<and> b \<noteq> NaN \<and> fl_pos a < fl_pos b)"

definition fl_le :: "pyfloat \<Rightarrow> pyfloat \<Rightarrow> bool" where
  "fl_le a b = (a \<noteq> NaN \<and> b \<noteq> NaN \<and> fl_pos a \<le> fl_pos b)"

datatype pyval =
    PNone
  | PBool bool
  | PInt int
  | PFloat pyfloat
  | PStr string
  | PList "pyval list"
  | PDict "(string \<times> pyval) list"

text \<open>
  An exception: its class and what \<^verbatim>\<open>str(exc)\<close> gives. These are the exceptions that
  derive from \<^verbatim>\<open>Exception\<close>, the ones the operations below raise;
  \<^verbatim>\<open>KeyboardInterrupt\<close> and \<^verbatim>\<open>SystemExit\<close>, which \<^verbatim>\<open>except Exception\<close> lets pass, come
  from outside the program and are not part of a run here.
\<close>

datatype exn = Exn (exn_class: string) (exn_str: string)

text \<open>
  A \<^verbatim>\<open>datetime\<close>: the wall-clock fields as microseconds since
  1970-01-01T00:00:00, and the UTC offset in microseconds (\<open>None\<close> for a naive value).
\<close>

record datetime =
  wall_us :: int
  utcoff :: "int option"

text \<open>
  What the Python library decides and the repository does not: every theorem holds for
  every such library.
  \<^item> \<open>str_to_float\<close>: \<^verbatim>\<open>float(s)\<close> on a \<^verbatim>\<open>str\<close>, \<open>None\<close> for ValueError;
  \<^item> \<open>rnd\<close>: the double nearest to a real number, as the arithmetic of doubles
    rounds the result of an operation;
  \<^item> \<open>year_padded\<close>: whether \<^verbatim>\<open>strftime\<close> pads \<^verbatim>\<open>%Y\<close> with zeros to four digits; it
    is the C library's choice, and glibc does not pad;
  \<^item> \<open>sort_with_nan\<close>: the order in which \<^verbatim>\<open>list.sort\<close> leaves a list whose keys
    include NaN, as the positions to take the elements from, one after the other: some
    arrangement of the list, not a sorted one;
  \<^item> \<open>repr\<close>: \<^verbatim>\<open>str(v)\<close> on a value that is not a \<^verbatim>\<open>str\<close>;
  \<^item> \<open>lower\<close>: \<^verbatim>\<open>str.lower\<close>;
  \<^item> \<open>urlencode\<close>: \<^verbatim>\<open>urllib.parse.urlencode\<close>;
  \<^item> \<open>fromisoformat\<close>: \<^verbatim>\<open>datetime.fromisoformat\<close>, \<open>None\<close> for ValueError;
  \<^item> \<open>local_utcoffset\<close>: the UTC offset of the system time zone at a naive wall-clock
    time, \<open>None\<close> when the platform cannot tell;
  \<^item> \<open>errmsg\<close>: the message of an exception that the interpreter raises in an
    operation on a value.
\<close>

record pylib =
  str_to_float :: "string \<Rightarrow> pyfloat option"
  rnd :: "real \<Rightarrow> real"
  year_padded :: bool
  sort_with_nan :: "pyfloat list \<Rightarrow> nat list"
  repr :: "pyval \<Rightarrow> string"
  lower :: "string \<Rightarrow> string"
  urlencode :: "(string \<times> string) list \<Rightarrow> string"
  fromisoformat :: "string \<Rightarrow> datetime option"
  local_utcoffset :: "int \<Rightarrow> int option"
  errmsg :: "string \<Rightarrow> pyval \<Rightarrow> string"

subsection \<open>Raising and catching\<close>

fun bnd :: "exn + 'a \<Rightarrow> ('a \<Rightarrow> exn + 'b) \<Rightarrow> exn + 'b" where
  "bnd (Inl e) f = Inl e"
| "bnd (Inr v) f = f v"

text \<open>\<^verbatim>\<open>try: body  except Exception: handler\<close>\<close>

fun try_except :: "exn + 'a \<Rightarrow> (exn \<Rightarrow> exn + 'a) \<Rightarrow> exn + 'a" where
  "try_except (Inl e) h = h e"
| "try_except (Inr v) h = Inr v"

definition raise :: "pylib \<Rightarrow> string \<Rightarrow> string \<Rightarrow> pyval \<Rightarrow> exn + 'a" where
  "raise lib cls op v = Inl (Exn cls (errmsg lib op v))"

subsection \<open>The operations of Python the aggregator uses\<close>

text \<open>Truth value of a value (\<^verbatim>\<open>if x\<close>, \<^verbatim>\<open>not x\<close>, \<^verbatim>\<open>x or y\<close>).\<close>

fun py_truthy :: "pyval \<Rightarrow> bool" where
  "py_truthy PNone = False"
| "py_truthy (PBool b) = b"
| "py_truthy (PInt i) = (i \<noteq> 0)"
| "py_truthy (PFloat f) = (f \<noteq> Fin 0)"
| "py_truthy (PStr s) = (s \<noteq> [])"
| "py_truthy (PList xs) = (xs \<noteq> [])"
| "py_truthy (PDict kvs) = (kvs \<noteq> [])"

definition py_or :: "pyval \<Rightarrow> pyval \<Rightarrow> pyval" where
  "py_or a b = (if py_truthy a then a else b)"

text \<open>\<^verbatim>\<open>m.get(key, default)\<close>: only a dict has the method.\<close>

fun py_get :: "pylib \<Rightarrow> pyval \<Rightarrow> string \<Rightarrow> pyval \<Rightarrow> exn + pyval" where
  "py_get lib (PDict kvs) k d = Inr (case map_of kvs k of None \<Rightarrow> d | Some v \<Rightarrow> v)"
| "py_get lib v k d = raise lib ''AttributeError'' ''get'' v"

text \<open>\<^verbatim>\<open>for x in v\<close>: the elements of a list, the characters of a string, the keys of a dict.\<close>

fun py_iter :: "pylib \<Rightarrow> pyval \<Rightarrow> exn + pyval list" where
  "py_iter lib (PList xs) = Inr xs"
| "py_iter lib (PStr s) = Inr (map (\<lambda>c. PStr [c]) s)"
| "py_iter lib (PDict kvs) = Inr (map (\<lambda>kv. PStr (fst kv)) kvs)"
| "py_iter lib v = raise lib ''TypeError'' ''iter'' v"

text \<open>
  \<^verbatim>\<open>float(v)\<close>. An int converts to the nearest double, unless it rounds beyond the
  largest double (\<open>2 ^ 1024 - 2 ^ 971\<close>), where it raises OverflowError.
\<close>

definition float_int_bound :: int where
  "float_int_bound = 2 ^ 1024 - 2 ^ 970"

fun py_float :: "pylib \<Rightarrow> pyval \<Rightarrow> exn + pyfloat" where
  "py_float lib PNone = raise lib ''TypeError'' ''float'' PNone"
| "py_float lib (PBool b) = Inr (Fin (if b then 1 else 0))"
| "py_float lib (PInt i) =
     (if \<bar>i\<bar> < float_int_bound then Inr (Fin (rnd lib (real_of_int i)))
      else raise lib ''OverflowError'' ''float'' (PInt i))"
| "py_float lib (PFloat f) = Inr f"
| "py_float lib (PStr s) =
     (case str_to_float lib s of
        None \<Rightarrow> raise lib ''ValueError'' ''float'' (PStr s)
      | Some f \<Rightarrow> Inr f)"
| "py_float lib (PList xs) = raise lib ''TypeError'' ''float'' (PList xs)"
| "py_float lib (PDict kvs) = raise lib ''TypeError'' ''float'' (PDict kvs)"

text \<open>\<^verbatim>\<open>str(v)\<close>, also what an f-string puts for \<^verbatim>\<open>{v}\<close>.\<close>

fun py_str :: "pylib \<Rightarrow> pyval \<Rightarrow> string" where
  "py_str lib (PStr s) = s"
| "py_str lib v = repr lib v"

text \<open>\<^verbatim>\<open>v[0]\<close>\<close>

fun py_item0 :: "pylib \<Rightarrow> pyval \<Rightarrow> exn + pyval" where
  "py_item0 lib (PList []) = raise lib ''IndexError'' ''getitem'' (PList [])"
| "py_item0 lib (PList (x # xs)) = Inr x"
| "py_item0 lib (PStr []) = raise lib ''IndexError'' ''getitem'' (PStr [])"
| "py_item0 lib (PStr (c # cs)) = Inr (PStr [c])"
| "py_item0 lib (PDict kvs) = raise lib ''KeyError'' ''getitem'' (PDict kvs)"
| "py_item0 lib v = raise lib ''TypeError'' ''getitem'' v"

text \<open>\<^verbatim>\<open>len(v)\<close>\<close>

fun py_len :: "pylib \<Rightarrow> pyval \<Rightarrow> exn + nat" where
  "py_len lib (PList xs) = Inr (length xs)"
| "py_len lib (PStr s) = Inr (length s)"
| "py_len lib (PDict kvs) = Inr (length kvs)"
| "py_len lib v = raise lib ''TypeError'' ''len'' v"

text \<open>\<^verbatim>\<open>s + v\<close> for a \<^verbatim>\<open>str\<close> \<open>s\<close>: only a \<^verbatim>\<open>str\<close> can be appended.\<close>

fun py_concat :: "pylib \<Rightarrow> string \<Rightarrow> pyval \<Rightarrow> exn + string" where
  "py_concat lib s (PStr t) = Inr (s @ t)"
| "py_concat lib s v = raise lib ''TypeError'' ''concat'' v"

text \<open>\<^verbatim>\<open>v.lower()\<close>: only a \<^verbatim>\<open>str\<close> has the method.\<close>

fun py_lower :: "pylib \<Rightarrow> pyval \<Rightarrow> exn + string" where
  "py_lower lib (PStr s) = Inr (lower lib s)"
| "py_lower lib v = raise lib ''AttributeError'' ''lower'' v"

section \<open>Dates\<close>

text \<open>
  The proleptic Gregorian calendar of \<^verbatim>\<open>datetime\<close>: day 1 is 0001-01-01 and
  1970-01-01 is day 719163. \<open>ord2ymd\<close> follows the library's \<^verbatim>\<open>_ord2ymd\<close>.
\<close>

definition days_before_month :: "int \<Rightarrow> int" where
  "days_before_month m =
     (if m = 1 then 0 else if m = 2 then 31 else if m = 3 then 59 else if m = 4 then 90
      else if m = 5 then 120 else if m = 6 then 151 else if m = 7 then 181
      else if m = 8 then 212 else if m = 9 then 243 else if m = 10 then 273
      else if m = 11 then 304 else 334)"

definition days_in_month :: "int \<Rightarrow> int" where
  "days_in_month m =
     (if m = 2 then 28 else if m = 4 \<or> m = 6 \<or> m = 9 \<or> m = 11 then 30 else 31)"

definition ord2ymd :: "int \<Rightarrow> int \<times> int \<times> int" where
  "ord2ymd ordinal =
     (let n = ordinal - 1;
          n400 = n div 146097; r400 = n mod 146097;
          n100 = r400 div 36524; r100 = r400 mod 36524;
          n4 = r100 div 1461; r4 = r100 mod 1461;
          n1 = r4 div 365; r1 = r4 mod 365;
          year = n400 * 400 + 1 + n100 * 100 + n4 * 4 + n1
      in if n1 = 4 \<or> n100 = 4 then (year - 1, 12, 31)
         else
           let leapyear = (n1 = 3 \<and> (n4 \<noteq> 24 \<or> n100 = 3));
               month = (r1 + 50) div 32;
               preceding = days_before_month month + (if month > 2 \<and> leapyear then 1 else 0)
           in if preceding > r1
              then (year, month - 1,
                    r1 - (preceding - (days_in_month (month - 1)
                                        + (if month - 1 = 2 \<and> leapyear then 1 else 0))) + 1)
              else (year, month, r1 - preceding + 1))"

text \<open>The range of \<^verbatim>\<open>datetime\<close>: 0001-01-01T00:00:00 to 9999-12-31T23:59:59.999999.\<close>

definition MIN_US :: int where
  "MIN_US = - 62135596800 * 1000000"

definition MAX_US :: int where
  "MAX_US = 253402300800 * 1000000 - 1"

definition in_range :: "int \<Rightarrow> bool" where
  "in_range us = (MIN_US \<le> us \<and> us \<le> MAX_US)"

subsection \<open>Formatting\<close>

definition digit :: "nat \<Rightarrow> char" where
  "digit d = char_of (48 + d)"

fun dec :: "nat \<Rightarrow> string" where
  "dec n = (if n < 10 then [digit n] else dec (n div 10) @ [digit (n mod 10)])"

declare dec.simps [simp del]

definition zpad :: "nat \<Rightarrow> int \<Rightarrow> string" where
  "zpad w i = (let ds = dec (nat i) in replicate (w - length ds) CHR ''0'' @ ds)"

text \<open>
  \<^verbatim>\<open>dt.strftime("%Y-%m-%dT%H:%M:%SZ")\<close>. The month, day, hour, minute and second have
  two digits. The year is what the C library prints for \<^verbatim>\<open>%Y\<close>: four digits where it
  pads, and the plain number where it does not, so that a year below 1000 has fewer.
\<close>

definition strftime :: "pylib \<Rightarrow> datetime \<Rightarrow> string" where
  "strftime lib dt =
     (let secs = wall_us dt div 1000000;
          days = secs div 86400; sod = secs mod 86400;
          (y, m, d) = ord2ymd (days + 719163)
      in (if year_padded lib then zpad 4 y else dec (nat y))
         @ ''-'' @ zpad 2 m @ ''-'' @ zpad 2 d @ ''T''
         @ zpad 2 (sod div 3600) @ '':'' @ zpad 2 (sod mod 3600 div 60) @ '':''
         @ zpad 2 (sod mod 60) @ ''Z'')"

text \<open>The canonical pattern \<^verbatim>\<open>^\d{4}-\d{2}-\d{2}T\d{2}:\d{2}:\d{2}Z$\<close>.\<close>

datatype pat = D | C char

definition is_digit :: "char \<Rightarrow> bool" where
  "is_digit c = (48 \<le> (of_char c :: nat) \<and> (of_char c :: nat) \<le> 57)"

fun matches :: "pat list \<Rightarrow> string \<Rightarrow> bool" where
  "matches [] [] = True"
| "matches (D # ps) (c # cs) = (is_digit c \<and> matches ps cs)"
| "matches (C x # ps) (c # cs) = (c = x \<and> matches ps cs)"
| "matches _ _ = False"

definition canonical :: "string \<Rightarrow> bool" where
  "canonical s = matches [D, D, D, D, C CHR ''-'', D, D, C CHR ''-'', D, D, C CHR ''T'',
                          D, D, C CHR '':'', D, D, C CHR '':'', D, D, C CHR ''Z''] s"

subsection \<open>Constructing datetimes\<close>

text \<open>
  \<^verbatim>\<open>datetime.fromtimestamp(t, tz=timezone.utc)\<close> for a double \<open>t\<close> of seconds since the
  epoch, as the interpreter computes it: the double is split into its whole and its
  fractional part, the fractional part is multiplied by \<open>10\<^sup>6\<close> (a product of doubles,
  hence rounded) and rounded half-even to whole microseconds, and a carry or borrow moves
  into the seconds. NaN, the infinities and instants outside the range of
  \<^verbatim>\<open>datetime\<close> raise; for an instant out of range the class is ValueError, OverflowError
  or OSError with the distance, all of them caught alike by \<^verbatim>\<open>_to_iso\<close>, and ValueError
  here.
\<close>

definition trunc :: "real \<Rightarrow> int" where
  "trunc x = (if 0 \<le> x then \<lfloor>x\<rfloor> else \<lceil>x\<rceil>)"

definition round_half_even :: "real \<Rightarrow> int" where
  "round_half_even x =
     (let f = \<lfloor>x\<rfloor>; d = x - of_int f
      in if d < 1 / 2 then f else if 1 / 2 < d then f + 1
         else if even f then f else f + 1)"

fun fromtimestamp_utc :: "pylib \<Rightarrow> pyfloat \<Rightarrow> exn + datetime" where
  "fromtimestamp_utc lib (Fin t) =
     (let intpart = trunc t;
          floatpart = round_half_even (rnd lib ((t - of_int intpart) * 1000000));
          (sec, us) = (if floatpart \<ge> 1000000 then (intpart + 1, floatpart - 1000000)
                       else if floatpart < 0 then (intpart - 1, floatpart + 1000000)
                       else (intpart, floatpart));
          total = sec * 1000000 + us
      in if in_range total then Inr \<lparr>wall_us = total, utcoff = Some 0\<rparr>
         else raise lib ''ValueError'' ''fromtimestamp'' (PFloat (Fin t)))"
| "fromtimestamp_utc lib NaN = raise lib ''ValueError'' ''fromtimestamp'' (PFloat NaN)"
| "fromtimestamp_utc lib f = raise lib ''OverflowError'' ''fromtimestamp'' (PFloat f)"

text \<open>\<^verbatim>\<open>x / 1000.0\<close> for a double \<open>x\<close>.\<close>

fun div_1000 :: "pylib \<Rightarrow> pyfloat \<Rightarrow> pyfloat" where
  "div_1000 lib (Fin x) = Fin (rnd lib (x / 1000))"
| "div_1000 lib f = f"

text \<open>
  \<^verbatim>\<open>datetime.fromisoformat(s)\<close>: the library returns a datetime within range or raises
  ValueError.
\<close>

definition py_fromisoformat :: "pylib \<Rightarrow> string \<Rightarrow> exn + datetime" where
  "py_fromisoformat lib s =
     (case fromisoformat lib s of
        None \<Rightarrow> raise lib ''ValueError'' ''fromisoformat'' (PStr s)
      | Some dt \<Rightarrow> if in_range (wall_us dt) then Inr dt
                   else raise lib ''ValueError'' ''fromisoformat'' (PStr s))"

text \<open>
  \<^verbatim>\<open>dt.astimezone(timezone.utc)\<close>: a naive value is taken in the system time zone;
  raises OverflowError when the result leaves the range.
\<close>

definition astimezone_utc :: "pylib \<Rightarrow> datetime \<Rightarrow> exn + datetime" where
  "astimezone_utc lib dt =
     bnd (case utcoff dt of
            Some off \<Rightarrow> Inr off
          | None \<Rightarrow> (case local_utcoffset lib (wall_us dt) of
                       None \<Rightarrow> raise lib ''OSError'' ''astimezone'' PNone
                     | Some off \<Rightarrow> Inr off))
       (\<lambda>off. let us = wall_us dt - off
              in if in_range us then Inr \<lparr>wall_us = us, utcoff = Some 0\<rparr>
                 else raise lib ''OverflowError'' ''astimezone'' PNone)"

section \<open>The timestamp normalizer\<close>

text \<open>\<^verbatim>\<open>s.replace("Z", "+00:00")\<close>\<close>

definition replace_Z :: "string \<Rightarrow> string" where
  "replace_Z s = concat (map (\<lambda>c. if c = CHR ''Z'' then ''+00:00'' else [c]) s)"

fun is_str :: "pyval \<Rightarrow> bool" where
  "is_str (PStr s) = True"
| "is_str v = False"

fun str_of :: "pyval \<Rightarrow> string" where
  "str_of (PStr s) = s"
| "str_of v = []"

text \<open>\<^verbatim>\<open>_to_iso\<close>: every exception of the two \<^verbatim>\<open>try\<close> bodies is caught and gives \<open>None\<close>.\<close>

definition to_iso :: "pylib \<Rightarrow> pyval \<Rightarrow> exn + string option" where
  "to_iso lib ts_ms_or_iso =
     (if ts_ms_or_iso = PNone \<or> ts_ms_or_iso = PStr [] then Inr None
      else if is_str ts_ms_or_iso then
        try_except
          (bnd (py_fromisoformat lib (replace_Z (str_of ts_ms_or_iso))) (\<lambda>dt.
           bnd (astimezone_utc lib dt) (\<lambda>u.
           Inr (Some (strftime lib u)))))
          (\<lambda>e. Inr None)
      else
        try_except
          (bnd (py_float lib ts_ms_or_iso) (\<lambda>ts_ms.
           bnd (fromtimestamp_utc lib (div_1000 lib ts_ms)) (\<lambda>dt.
           Inr (Some (strftime lib dt)))))
          (\<lambda>e. Inr None))"

section \<open>Markets and the source adapters\<close>

record market =
  source :: string
  id' :: pyval
  question :: pyval
  url :: string
  outcome_type :: string
  probability :: pyval
  implied_odds :: pyval
  volume_24h :: "pyfloat option"
  liquidity :: "pyfloat option"
  created_at :: "string option"
  close_time :: "string option"

text \<open>\<^verbatim>\<open>float(v) if v is not None else None\<close>\<close>

definition opt_float :: "pylib \<Rightarrow> pyval \<Rightarrow> exn + pyfloat option" where
  "opt_float lib v = (if v \<noteq> PNone then bnd (py_float lib v) (\<lambda>r. Inr (Some r)) else Inr None)"

text \<open>\<^verbatim>\<open>m.get(k1) or m.get(k2)\<close>: the second lookup runs only when the first is falsy.\<close>

definition get_or :: "pylib \<Rightarrow> pyval \<Rightarrow> string \<Rightarrow> string \<Rightarrow> exn + pyval" where
  "get_or lib m k1 k2 =
     bnd (py_get lib m k1 PNone) (\<lambda>a. if py_truthy a then Inr a else py_get lib m k2 PNone)"

subsection \<open>Manifold\<close>

text \<open>The body of the loop of \<^verbatim>\<open>fetch_manifold\<close>: the Market of one record.\<close>

definition manifold_market :: "pylib \<Rightarrow> pyval \<Rightarrow> exn + market" where
  "manifold_market lib m =
     bnd (py_get lib m ''outcomeType'' PNone) (\<lambda>ot.
     bnd (if ot = PStr ''BINARY'' then py_get lib m ''probability'' PNone else Inr PNone) (\<lambda>prob.
     bnd (py_get lib m ''id'' (PStr [])) (\<lambda>mid.
     bnd (py_get lib m ''question'' (PStr [])) (\<lambda>q.
     bnd (py_get lib m ''creatorUsername'' (PStr [])) (\<lambda>creator.
     bnd (py_get lib m ''slug'' mid) (\<lambda>slug.
     bnd (py_lower lib (py_or ot (PStr []))) (\<lambda>otype.
     bnd (py_get lib m ''volume24Hours'' PNone) (\<lambda>vol.
     bnd (opt_float lib vol) (\<lambda>volume.
     bnd (py_get lib m ''elasticity'' PNone) (\<lambda>el.
     bnd (opt_float lib el) (\<lambda>liq.
     bnd (py_get lib m ''createdTime'' PNone) (\<lambda>ct.
     bnd (to_iso lib ct) (\<lambda>created.
     bnd (py_get lib m ''closeTime'' PNone) (\<lambda>cl.
     bnd (to_iso lib cl) (\<lambda>closed.
     Inr \<lparr>source = ''manifold'', id' = mid, question = q,
          url = ''https://manifold.markets/'' @ py_str lib creator @ ''/'' @ py_str lib slug,
          outcome_type = otype, probability = prob, implied_odds = prob,
          volume_24h = volume, liquidity = liq,
          created_at = created, close_time = closed\<rparr>)))))))))))))))"

text \<open>\<^verbatim>\<open>for m in data: markets.append(Market(...))\<close>\<close>

fun manifold_loop :: "pylib \<Rightarrow> pyval list \<Rightarrow> market list \<Rightarrow> exn + market list" where
  "manifold_loop lib [] markets = Inr markets"
| "manifold_loop lib (m # ms) markets =
     bnd (manifold_market lib m) (\<lambda>mk. manifold_loop lib ms (markets @ [mk]))"

definition manifold_markets :: "pylib \<Rightarrow> pyval \<Rightarrow> exn + market list" where
  "manifold_markets lib data = bnd (py_iter lib data) (\<lambda>recs. manifold_loop lib recs [])"

subsection \<open>Polymarket\<close>

text \<open>
  The inner loop: \<open>best_market\<close> starts as \<^verbatim>\<open>None\<close> and \<open>best_volume\<close> as \<open>-1.0\<close>; a
  market replaces the best one when its volume, \<^verbatim>\<open>float(m.get("volume", 0) or 0.0)\<close>, is
  strictly greater.
\<close>

definition market_volume :: "pylib \<Rightarrow> pyval \<Rightarrow> exn + pyfloat" where
  "market_volume lib m =
     bnd (py_get lib m ''volume'' (PInt 0)) (\<lambda>v. py_float lib (py_or v (PFloat (Fin 0))))"

fun select_best ::
  "pylib \<Rightarrow> pyval list \<Rightarrow> pyval \<Rightarrow> pyfloat \<Rightarrow> exn + pyval \<times> pyfloat" where
  "select_best lib [] best_market best_volume = Inr (best_market, best_volume)"
| "select_best lib (m # ms) best_market best_volume =
     bnd (market_volume lib m) (\<lambda>vol.
     if fl_less best_volume vol then select_best lib ms m vol
     else select_best lib ms best_market best_volume)"

text \<open>The Market built from an event and its best market.\<close>

definition polymarket_market ::
  "pylib \<Rightarrow> pyval \<Rightarrow> pyval \<Rightarrow> string \<Rightarrow> pyval \<Rightarrow> exn + market" where
  "polymarket_market lib e q base_url best_market =
     bnd (py_get lib best_market ''prices'' PNone) (\<lambda>p.
     let prices = py_or p (PList []) in
     bnd (if py_truthy prices
          then bnd (py_item0 lib prices) (\<lambda>p0. bnd (py_float lib p0) (\<lambda>f. Inr (PFloat f)))
          else Inr PNone) (\<lambda>prob_yes.
     bnd (py_get lib best_market ''id'' PNone) (\<lambda>mid.
     bnd (py_len lib prices) (\<lambda>n.
     bnd (py_get lib best_market ''volume'' PNone) (\<lambda>vol.
     bnd (opt_float lib vol) (\<lambda>volume.
     bnd (py_get lib best_market ''liquidity'' PNone) (\<lambda>li.
     bnd (opt_float lib li) (\<lambda>liq.
     bnd (get_or lib e ''createdAt'' ''created_at'') (\<lambda>ct.
     bnd (to_iso lib ct) (\<lambda>created.
     bnd (get_or lib e ''endDate'' ''end_date'') (\<lambda>cl.
     bnd (to_iso lib cl) (\<lambda>closed.
     Inr \<lparr>source = ''polymarket'', id' = PStr (py_str lib mid), question = q,
          url = base_url,
          outcome_type = (if n = 2 then ''binary'' else ''multi''),
          probability = prob_yes, implied_odds = prob_yes,
          volume_24h = volume, liquidity = liq,
          created_at = created, close_time = closed\<rparr>))))))))))))"

text \<open>\<^verbatim>\<open>e.get("title") or e.get("question") or ""\<close>\<close>

definition event_question :: "pylib \<Rightarrow> pyval \<Rightarrow> exn + pyval" where
  "event_question lib e =
     bnd (get_or lib e ''title'' ''question'') (\<lambda>t. Inr (py_or t (PStr [])))"

text \<open>\<^verbatim>\<open>"https://polymarket.com/event/" + (e.get("slug") or e.get("id") or "")\<close>\<close>

definition event_base_url :: "pylib \<Rightarrow> pyval \<Rightarrow> exn + string" where
  "event_base_url lib e =
     bnd (get_or lib e ''slug'' ''id'') (\<lambda>s.
     py_concat lib ''https://polymarket.com/event/'' (py_or s (PStr [])))"

text \<open>What \<^verbatim>\<open>for m in e.get("markets") or []\<close> runs over.\<close>

definition event_markets :: "pylib \<Rightarrow> pyval \<Rightarrow> exn + pyval list" where
  "event_markets lib e =
     bnd (py_get lib e ''markets'' PNone) (\<lambda>ms. py_iter lib (py_or ms (PList [])))"

text \<open>The body of the loop over the events: \<open>None\<close> is \<^verbatim>\<open>continue\<close>.\<close>

definition polymarket_event :: "pylib \<Rightarrow> pyval \<Rightarrow> exn + market option" where
  "polymarket_event lib e =
     bnd (event_question lib e) (\<lambda>q.
     bnd (event_base_url lib e) (\<lambda>base_url.
     bnd (event_markets lib e) (\<lambda>mlist.
     bnd (select_best lib mlist PNone (Fin (- 1))) (\<lambda>(best_market, best_volume).
     if \<not> py_truthy best_market then Inr None
     else bnd (polymarket_market lib e q base_url best_market) (\<lambda>mk. Inr (Some mk))))))"

fun polymarket_loop :: "pylib \<Rightarrow> pyval list \<Rightarrow> market list \<Rightarrow> exn + market list" where
  "polymarket_loop lib [] markets = Inr markets"
| "polymarket_loop lib (e # es) markets =
     bnd (polymarket_event lib e) (\<lambda>r.
       case r of None \<Rightarrow> polymarket_loop lib es markets
               | Some mk \<Rightarrow> polymarket_loop lib es (markets @ [mk]))"

text \<open>A bare list of events, or an object with the list under \<^verbatim>\<open>events\<close>.\<close>

fun events_of :: "pylib \<Rightarrow> pyval \<Rightarrow> exn + pyval" where
  "events_of lib (PList xs) = Inr (PList xs)"
| "events_of lib data = bnd (py_get lib data ''events'' PNone) (\<lambda>v. Inr (py_or v (PList [])))"

definition polymarket_markets :: "pylib \<Rightarrow> pyval \<Rightarrow> exn + market list" where
  "polymarket_markets lib data =
     bnd (events_of lib data) (\<lambda>events.
     bnd (py_iter lib events) (\<lambda>es. polymarket_loop lib es []))"

section \<open>The network, the error channel and the file system\<close>

record request =
  req_url :: string
  user_agent :: string
  timeout :: nat

text \<open>
  The state of the outside world that a run touches: the requests sent, what was
  written to the error and output channels, the directories \<^verbatim>\<open>mkdir\<close> was asked for
  and the contents of the files.
\<close>

record world =
  reqs :: "request list"
  stderr :: "string list"
  stdout :: "string list"
  mkdirs :: "string list"
  files :: "string \<rightharpoonup> string"

text \<open>
  The network answers a request, given the requests before it, with the parsed JSON
  body or with the exception of \<^verbatim>\<open>urlopen\<close>, \<^verbatim>\<open>read\<close>, \<^verbatim>\<open>decode\<close> or \<^verbatim>\<open>json.loads\<close>.
\<close>

type_synonym net = "request list \<Rightarrow> request \<Rightarrow> exn + pyval"

definition urlopen_json :: "net \<Rightarrow> request \<Rightarrow> world \<Rightarrow> (exn + pyval) \<times> world" where
  "urlopen_json net r w = (net (reqs w) r, w\<lparr>reqs := reqs w @ [r]\<rparr>)"

definition fetch_manifold :: "pylib \<Rightarrow> net \<Rightarrow> int \<Rightarrow> world \<Rightarrow> (exn + market list) \<times> world" where
  "fetch_manifold lib net limit w =
     (let url = ''https://api.manifold.markets/v0/markets'';
          params = [(''limit'', py_str lib (PInt limit))];
          query = urlencode lib params;
          (resp, w') = urlopen_json net
             \<lparr>req_url = url @ ''?'' @ query, user_agent = ''prediction-aggregator/0.1'',
              timeout = 15\<rparr> w
      in (bnd resp (manifold_markets lib), w'))"

definition fetch_polymarket :: "pylib \<Rightarrow> net \<Rightarrow> int \<Rightarrow> world \<Rightarrow> (exn + market list) \<times> world" where
  "fetch_polymarket lib net limit w =
     (let url = ''https://gamma-api.polymarket.com/events'';
          params = [(''includeClosedMarkets'', ''false''), (''limit'', py_str lib (PInt limit))];
          query = urlencode lib params;
          (resp, w') = urlopen_json net
             \<lparr>req_url = url @ ''?'' @ query, user_agent = ''prediction-aggregator/0.1'',
              timeout = 20\<rparr> w
      in (bnd resp (polymarket_markets lib), w'))"

section \<open>The aggregator\<close>

text \<open>The body of the \<^verbatim>\<open>try\<close> in the loop over the sources.\<close>

definition fetch_source ::
  "pylib \<Rightarrow> net \<Rightarrow> int \<Rightarrow> string \<Rightarrow> world \<Rightarrow> (exn + market list) \<times> world" where
  "fetch_source lib net limit src w =
     (if src = ''manifold'' then fetch_manifold lib net limit w
      else if src = ''polymarket'' then fetch_polymarket lib net limit w
      else (Inl (Exn ''ValueError'' (''Unknown source: '' @ src)), w))"

text \<open>The line that the \<^verbatim>\<open>except\<close> clause writes.\<close>

definition diagnostic :: "string \<Rightarrow> exn \<Rightarrow> string" where
  "diagnostic src exc =
     ''[prediction_aggregator] source '' @ src @ '' failed: '' @ exn_str exc @ [CHR 0x0A]"

fun sources_loop ::
  "pylib \<Rightarrow> net \<Rightarrow> int \<Rightarrow> string list \<Rightarrow> market list \<Rightarrow> world \<Rightarrow> (exn + market list) \<times> world" where
  "sources_loop lib net limit [] all_markets w = (Inr all_markets, w)"
| "sources_loop lib net limit (src # rest) all_markets w =
     (case fetch_source lib net limit src w of
        (Inr ms, w') \<Rightarrow> sources_loop lib net limit rest (all_markets @ ms) w'
      | (Inl exc, w') \<Rightarrow>
          sources_loop lib net limit rest all_markets
            (w'\<lparr>stderr := stderr w' @ [diagnostic src exc]\<rparr>))"

text \<open>\<^verbatim>\<open>x or 0.0\<close> for an optional float.\<close>

definition or_zero :: "pyfloat option \<Rightarrow> pyfloat" where
  "or_zero x = (case x of None \<Rightarrow> Fin 0 | Some v \<Rightarrow> if v \<noteq> Fin 0 then v else Fin 0)"

definition liquidity_filter :: "pyfloat option \<Rightarrow> market list \<Rightarrow> market list" where
  "liquidity_filter min_liquidity ms =
     (case min_liquidity of
        None \<Rightarrow> ms
      | Some t \<Rightarrow> filter (\<lambda>m. fl_le t (or_zero (liquidity m))) ms)"

text \<open>
  \<^verbatim>\<open>list.sort(key=..., reverse=True)\<close>. The sort compares keys with \<^verbatim>\<open><\<close> only. When
  no key is NaN the keys are totally ordered and the result is the stable sort,
  descending. When a key is NaN the comparisons are not an order and the result is an
  arrangement of the list that depends on the algorithm: the library says which.
\<close>

fun take_out :: "nat list \<Rightarrow> 'a list \<Rightarrow> 'a list" where
  "take_out ps [] = []"
| "take_out [] (x # xs) = x # xs"
| "take_out (p # ps) (x # xs) =
     (let j = p mod length (x # xs)
      in (x # xs) ! j # take_out ps (take j (x # xs) @ drop (Suc j) (x # xs)))"

fun fl_desc :: "pyfloat \<Rightarrow> int \<times> real" where
  "fl_desc f = (- fst (fl_pos f), - snd (fl_pos f))"

definition sort_reverse :: "pylib \<Rightarrow> ('a \<Rightarrow> pyfloat) \<Rightarrow> 'a list \<Rightarrow> 'a list" where
  "sort_reverse lib key xs =
     (if list_ex (\<lambda>x. key x = NaN) xs then take_out (sort_with_nan lib (map key xs)) xs
      else sort_key (\<lambda>x. fl_desc (key x)) xs)"

definition rank :: "pylib \<Rightarrow> market list \<Rightarrow> market list" where
  "rank lib ms = sort_reverse lib (\<lambda>m. or_zero (volume_24h m)) ms"

text \<open>\<^verbatim>\<open>xs[:n]\<close>: a negative stop counts from the end, and the stop is clipped to the list.\<close>

definition slice_to :: "'a list \<Rightarrow> int \<Rightarrow> 'a list" where
  "slice_to xs n =
     (let len = int (length xs);
          stop = (if n < 0 then (if n + len < 0 then 0 else n + len)
                  else (if n > len then len else n))
      in take (nat stop) xs)"

definition keep_top :: "int option \<Rightarrow> market list \<Rightarrow> market list" where
  "keep_top top_n ms = (case top_n of None \<Rightarrow> ms | Some n \<Rightarrow> slice_to ms n)"

definition aggregate_markets ::
  "pylib \<Rightarrow> net \<Rightarrow> string list \<Rightarrow> int \<Rightarrow> pyfloat option \<Rightarrow> int option \<Rightarrow> world
     \<Rightarrow> (exn + market list) \<times> world" where
  "aggregate_markets lib net sources limit min_liquidity top_n w =
     (case sources_loop lib net limit sources [] w of
        (Inl exc, w') \<Rightarrow> (Inl exc, w')
      | (Inr all_markets, w') \<Rightarrow>
          (Inr (keep_top top_n (rank lib (liquidity_filter min_liquidity all_markets))), w'))"

section \<open>The command line and the snapshot\<close>

record args =
  arg_sources :: "string list"
  arg_limit :: int
  arg_min_liquidity :: "pyfloat option"
  arg_top_n :: "int option"
  arg_out :: string

record payload =
  generated_at :: string
  sources :: "string list"
  count' :: nat
  markets :: "market list"

text \<open>
  What the system decides in \<^verbatim>\<open>main\<close>: the clock, \<^verbatim>\<open>json.dumps\<close>, the parent of a
  path, and whether \<^verbatim>\<open>mkdir\<close>, opening the file or writing it fails. A write that
  fails has put the first \<open>k\<close> characters of the text into the file.
\<close>

record sys =
  now_utc :: string
  dumps :: "payload \<Rightarrow> exn + string"
  parent :: "string \<Rightarrow> string"
  mkdir_fault :: "exn option"
  open_fault :: "exn option"
  write_fault :: "(nat \<times> exn) option"

text \<open>\<^verbatim>\<open>out_path.parent.mkdir(parents=True, exist_ok=True)\<close>\<close>

definition mkdir_parents :: "sys \<Rightarrow> string \<Rightarrow> world \<Rightarrow> (exn + unit) \<times> world" where
  "mkdir_parents sy dir w =
     (case mkdir_fault sy of
        Some e \<Rightarrow> (Inl e, w)
      | None \<Rightarrow> (Inr (), w\<lparr>mkdirs := mkdirs w @ [dir]\<rparr>))"

text \<open>
  \<^verbatim>\<open>out_path.write_text(text, encoding="utf-8")\<close>: the file is opened for writing, which
  empties it, then written and closed.
\<close>

definition write_text :: "sys \<Rightarrow> string \<Rightarrow> string \<Rightarrow> world \<Rightarrow> (exn + unit) \<times> world" where
  "write_text sy path text w =
     (case open_fault sy of
        Some e \<Rightarrow> (Inl e, w)
      | None \<Rightarrow>
          let w1 = w\<lparr>files := (files w)(path \<mapsto> [])\<rparr>
          in (case write_fault sy of
                Some (k, e) \<Rightarrow> (Inl e, w1\<lparr>files := (files w1)(path \<mapsto> take k text)\<rparr>)
              | None \<Rightarrow> (Inr (), w1\<lparr>files := (files w1)(path \<mapsto> text)\<rparr>)))"

text \<open>
  \<^verbatim>\<open>main\<close> after \<^verbatim>\<open>parse_args\<close>: \<open>Inr\<close> is the exit code it returns, \<open>Inl\<close> an exception
  that leaves it.
\<close>

definition snapshot :: "sys \<Rightarrow> args \<Rightarrow> market list \<Rightarrow> payload" where
  "snapshot sy a ms =
     \<lparr>generated_at = now_utc sy, sources = arg_sources a, count' = length ms, markets = ms\<rparr>"

definition main :: "pylib \<Rightarrow> net \<Rightarrow> sys \<Rightarrow> args \<Rightarrow> world \<Rightarrow> (exn + int) \<times> world" where
  "main lib net sy a w =
     (case aggregate_markets lib net (arg_sources a) (arg_limit a) (arg_min_liquidity a)
             (arg_top_n a) w of
        (Inl exc, w1) \<Rightarrow>
          (Inr 1, w1\<lparr>stderr := stderr w1
                       @ [''[prediction_aggregator] error: '' @ exn_str exc @ [CHR 0x0A]]\<rparr>)
      | (Inr ms, w1) \<Rightarrow>
          (case dumps sy (snapshot sy a ms) of
             Inl e \<Rightarrow> (Inl e, w1)
           | Inr text \<Rightarrow>
               if arg_out a = ''-'' then (Inr 0, w1\<lparr>stdout := stdout w1 @ [text @ [CHR 0x0A]]\<rparr>)
               else (case mkdir_parents sy (parent sy (arg_out a)) w1 of
                       (Inl e, w2) \<Rightarrow> (Inl e, w2)
                     | (Inr u, w2) \<Rightarrow>
                         (case write_text sy (arg_out a) text w2 of
                            (Inl e, w3) \<Rightarrow> (Inl e, w3)
                          | (Inr u', w3) \<Rightarrow> (Inr 0, w3)))))"

section \<open>What each source contributed\<close>

text \<open>
  The outcome of each requested source, in request order: the result of its fetch in
  the world the sources before it left behind.
\<close>

fun outcomes ::
  "pylib \<Rightarrow> net \<Rightarrow> int \<Rightarrow> string list \<Rightarrow> world \<Rightarrow> (string \<times> (exn + market list)) list" where
  "outcomes lib net limit [] w = []"
| "outcomes lib net limit (src # rest) w =
     (case fetch_source lib net limit src w of
        (r, w') \<Rightarrow> (src, r) # outcomes lib net limit rest w')"

text \<open>A source that failed contributes no market and one diagnostic line.\<close>

definition contributed :: "string \<times> (exn + market list) \<Rightarrow> market list" where
  "contributed oc = (case snd oc of Inl exc \<Rightarrow> [] | Inr ms \<Rightarrow> ms)"

definition logged :: "string \<times> (exn + market list) \<Rightarrow> string list" where
  "logged oc = (case snd oc of Inl exc \<Rightarrow> [diagnostic (fst oc) exc] | Inr ms \<Rightarrow> [])"

definition succeeded :: "string \<times> (exn + market list) \<Rightarrow> bool" where
  "succeeded oc = (case snd oc of Inl exc \<Rightarrow> False | Inr ms \<Rightarrow> True)"

definition collected :: "pylib \<Rightarrow> net \<Rightarrow> int \<Rightarrow> string list \<Rightarrow> world \<Rightarrow> market list" where
  "collected lib net limit srcs w = concat (map contributed (outcomes lib net limit srcs w))"

definition known :: "string \<Rightarrow> bool" where
  "known src = (src = ''manifold'' \<or> src = ''polymarket'')"


definition liquidity_key :: "market \<Rightarrow> pyfloat" where
  "liquidity_key m = (case liquidity m of None \<Rightarrow> Fin 0 | Some v \<Rightarrow> v)"

text \<open>The line that an unknown name leaves on the error channel.\<close>

definition unknown_line :: "string \<Rightarrow> string" where
  "unknown_line src = diagnostic src (Exn ''ValueError'' (''Unknown source: '' @ src))"

section \<open>A small world to run the code in\<close>

text \<open>
  A library as on Linux: \<^verbatim>\<open>%Y\<close> is not padded. It rounds nothing, which is right on
  the numbers used below, all of them doubles, as are the results of the operations on
  them; and it parses no string as a float, which is right on \<^verbatim>\<open>n/a\<close>.
\<close>

definition demo_lib :: pylib where
  "demo_lib = \<lparr>str_to_float = (\<lambda>s. None), rnd = (\<lambda>x. x), year_padded = False,
                sort_with_nan = (\<lambda>ks. []), repr = (\<lambda>v. ''?''), lower = (\<lambda>s. s),
                urlencode = (\<lambda>ps. ''q''), fromisoformat = (\<lambda>s. None),
                local_utcoffset = (\<lambda>t. Some 0), errmsg = (\<lambda>op v. op)\<rparr>"

text \<open>The two adapters are told apart by their timeouts.\<close>

definition demo_net :: "exn + pyval \<Rightarrow> exn + pyval \<Rightarrow> net" where
  "demo_net manifold_resp polymarket_resp =
     (\<lambda>h r. if timeout r = 15 then manifold_resp else polymarket_resp)"

definition demo_world :: world where
  "demo_world = \<lparr>reqs = [], stderr = [], stdout = [], mkdirs = [], files = Map.empty\<rparr>"

definition two_manifold :: pyval where
  "two_manifold =
     PList [PDict [(''id'', PStr ''a''), (''volume24Hours'', PInt 10)],
            PDict [(''id'', PStr ''b''), (''volume24Hours'', PInt 30)]]"

definition two_polymarket :: pyval where
  "two_polymarket =
     PList [PDict [(''slug'', PStr ''c''),
                   (''markets'', PList [PDict [(''id'', PStr ''c''), (''volume'', PInt 30)]])],
            PDict [(''slug'', PStr ''d''),
                   (''markets'', PList [PDict [(''id'', PStr ''d''), (''volume'', PInt 5)]])]]"

definition four_manifold :: pyval where
  "four_manifold =
     PList [PDict [(''id'', PStr ''a'')],
            PDict [(''id'', PStr ''b''), (''elasticity'', PInt 10)],
            PDict [(''id'', PStr ''c''), (''elasticity'', PInt 50)],
            PDict [(''id'', PStr ''d''), (''elasticity'', PInt 100)]]"

text \<open>A batch whose second record has a volume that is not a number.\<close>

definition bad_batch :: pyval where
  "bad_batch =
     PList [PDict [(''id'', PStr ''a''), (''volume24Hours'', PInt 10)],
            PDict [(''id'', PStr ''b''), (''volume24Hours'', PStr ''n/a'')]]"

text \<open>Two events; the market of the second has a volume that is not a number.\<close>

definition bad_events :: pyval where
  "bad_events =
     PList [PDict [(''slug'', PStr ''c''),
                   (''markets'', PList [PDict [(''id'', PStr ''c''), (''volume'', PInt 30)]])],
            PDict [(''slug'', PStr ''d''),
                   (''markets'', PList [PDict [(''id'', PStr ''d''), (''volume'', PStr ''n/a'')]])]]"

text \<open>
  An event with three markets of volumes 5, 40 and 12, and an event whose first market
  is an empty object and whose second has the volume 0.
\<close>

definition three_markets :: pyval where
  "three_markets =
     PDict [(''title'', PStr ''t''), (''slug'', PStr ''s''),
            (''markets'', PList [PDict [(''id'', PStr ''a''), (''volume'', PInt 5)],
                                 PDict [(''id'', PStr ''b''), (''volume'', PInt 40),
                                        (''liquidity'', PInt 7)],
                                 PDict [(''id'', PStr ''c''), (''volume'', PInt 12)]])]"

definition empty_first_market :: pyval where
  "empty_first_market =
     PDict [(''title'', PStr ''t''), (''slug'', PStr ''s''),
            (''markets'', PList [PDict [], PDict [(''id'', PStr ''x''), (''volume'', PInt 0)]])]"

text \<open>A system given the fault of its writes, a full disk, and a world with an older snapshot.\<close>

definition demo_sys :: "(nat \<times> exn) option \<Rightarrow> sys" where
  "demo_sys fault = \<lparr>now_utc = ''2024-01-01T00:00:00Z'', dumps = (\<lambda>pl. Inr ''new snapshot''),
                  parent = (\<lambda>p. ''.''), mkdir_fault = None, open_fault = None,
                  write_fault = fault\<rparr>"

definition disk_full :: exn where
  "disk_full = Exn ''OSError'' ''[Errno 28] No space left on device''"

definition demo_args :: args where
  "demo_args = \<lparr>arg_sources = [''manifold''], arg_limit = 200, arg_min_liquidity = None,
                 arg_top_n = Some 100, arg_out = ''out.json''\<rparr>"

definition old_world :: world where
  "old_world = \<lparr>reqs = [], stderr = [], stdout = [], mkdirs = [],
                 files = [''out.json'' \<mapsto> ''old snapshot'']\<rparr>"

definition timed_out :: exn where
  "timed_out = Exn ''TimeoutError'' ''timed out''"

section \<open>The loop over the sources\<close>

lemma fetch_source_stderr:
  "fetch_source lib net limit src (w\<lparr>stderr := s\<rparr>) =
     (case fetch_source lib net limit src w of (r, w') \<Rightarrow> (r, w'\<lparr>stderr := s\<rparr>))"
  by (simp add: fetch_source_def fetch_manifold_def fetch_polymarket_def urlopen_json_def Let_def)

lemma fetch_source_keeps_stderr:
  "fetch_source lib net limit src w = (r, w') \<Longrightarrow> stderr w' = stderr w"
  by (auto simp add: fetch_source_def fetch_manifold_def fetch_polymarket_def urlopen_json_def
        Let_def split: if_splits)

lemma outcomes_stderr:
  "outcomes lib net limit srcs (w\<lparr>stderr := s\<rparr>) = outcomes lib net limit srcs w"
proof (induction srcs arbitrary: w s)
  case Nil
  show ?case by simp
next
  case (Cons src rest)
  obtain r w' where f: "fetch_source lib net limit src w = (r, w')"
    by (cases "fetch_source lib net limit src w")
  show ?case
    by (simp add: fetch_source_stderr f Cons.IH)
qed

text \<open>
  The loop never raises: it returns the markets of the sources that answered, in request
  order, and has written one line for each source that failed.
\<close>

lemma sources_loop_outcomes:
  "\<exists>w'. sources_loop lib net limit srcs all w
          = (Inr (all @ concat (map contributed (outcomes lib net limit srcs w))), w')
      \<and> stderr w' = stderr w @ concat (map logged (outcomes lib net limit srcs w))"
proof (induction srcs arbitrary: all w)
  case Nil
  show ?case by simp
next
  case (Cons src rest)
  obtain r w1 where f: "fetch_source lib net limit src w = (r, w1)"
    by (cases "fetch_source lib net limit src w")
  have e: "stderr w1 = stderr w"
    using f by (rule fetch_source_keeps_stderr)
  show ?case
  proof (cases r)
    case (Inl exc)
    from Cons.IH [of all "w1\<lparr>stderr := stderr w1 @ [diagnostic src exc]\<rparr>"]
    show ?thesis
      by (simp add: f Inl e outcomes_stderr contributed_def logged_def)
  next
    case (Inr ms)
    from Cons.IH [of "all @ ms" w1]
    show ?thesis
      by (simp add: f Inr e contributed_def logged_def)
  qed
qed

lemma aggregate_markets_collected:
  "\<exists>w'. aggregate_markets lib net srcs limit ml tn w
          = (Inr (keep_top tn (rank lib (liquidity_filter ml (collected lib net limit srcs w)))), w')
      \<and> stderr w' = stderr w @ concat (map logged (outcomes lib net limit srcs w))"
proof -
  from sources_loop_outcomes [of lib net limit srcs "[]" w]
  obtain w' where
    "sources_loop lib net limit srcs [] w = (Inr (collected lib net limit srcs w), w')"
    "stderr w' = stderr w @ concat (map logged (outcomes lib net limit srcs w))"
    by (auto simp add: collected_def)
  then show ?thesis
    by (simp add: aggregate_markets_def)
qed

section \<open>Ranking\<close>


lemma or_zero_liquidity: "or_zero (liquidity m) = liquidity_key m"
  by (simp add: or_zero_def liquidity_key_def split: option.splits)

text \<open>Whatever positions the library names, taking the elements out keeps them all.\<close>

lemma mset_take_out: "mset (take_out ps xs) = mset xs"
proof (induction ps xs rule: take_out.induct)
  case (1 ps)
  show ?case by simp
next
  case (2 x xs)
  show ?case by simp
next
  case (3 p ps x xs)
  define ys where "ys = x # xs"
  define j where "j = p mod length ys"
  have j: "j < length ys"
    by (simp add: j_def ys_def)
  have ih: "mset (take_out ps (take j ys @ drop (Suc j) ys)) = mset (take j ys @ drop (Suc j) ys)"
    using "3.IH" [of j] by (simp only: j_def ys_def)
  have "ys = take j ys @ ys ! j # drop (Suc j) ys"
    using j by (rule id_take_nth_drop)
  then have "mset ys = mset (take j ys @ ys ! j # drop (Suc j) ys)"
    by simp
  then have m: "mset ys = add_mset (ys ! j) (mset (take j ys @ drop (Suc j) ys))"
    by simp
  have "take_out (p # ps) (x # xs) = ys ! j # take_out ps (take j ys @ drop (Suc j) ys)"
    by (simp only: take_out.simps Let_def j_def ys_def)
  then have "mset (take_out (p # ps) (x # xs))
      = add_mset (ys ! j) (mset (take_out ps (take j ys @ drop (Suc j) ys)))"
    by simp
  also have "\<dots> = mset ys"
    by (simp only: ih m)
  finally show ?case
    by (simp only: ys_def)
qed

lemma mset_rank: "mset (rank lib ms) = mset ms"
  by (simp add: rank_def sort_reverse_def mset_take_out)








section \<open>Truncation\<close>

lemma slice_to_negative:
  assumes "n < 0"
  shows "slice_to xs n = take (length xs - nat (- n)) xs"
proof -
  have "nat (if n + int (length xs) < 0 then 0 else n + int (length xs)) = length xs - nat (- n)"
    using assms by auto
  then show ?thesis
    using assms by (simp add: slice_to_def Let_def)
qed

text \<open>
  C10. With a negative \<open>top_n\<close> the aggregator returns the ranked, filtered list without
  its last \<open>- top_n\<close> markets (the subtraction of lengths stops at zero, so the result is
  empty when \<open>- top_n\<close> is at least the length); its length is therefore greater
  than \<open>top_n\<close>.
\<close>

theorem negative_top_n_drops_from_end:
  assumes "n < 0"
  shows "\<exists>r w'. aggregate_markets lib net srcs limit ml (Some n) w = (Inr r, w')
      \<and> r = take (length (rank lib (liquidity_filter ml (collected lib net limit srcs w))) - nat (- n))
                 (rank lib (liquidity_filter ml (collected lib net limit srcs w)))
      \<and> length r = length (liquidity_filter ml (collected lib net limit srcs w)) - nat (- n)
      \<and> int (length r) > n"
proof -
  let ?s = "rank lib (liquidity_filter ml (collected lib net limit srcs w))"
  from aggregate_markets_collected [of lib net srcs limit ml "Some n" w]
  obtain w' where a: "aggregate_markets lib net srcs limit ml (Some n) w
      = (Inr (keep_top (Some n) ?s), w')"
    by blast
  have t: "keep_top (Some n) ?s = take (length ?s - nat (- n)) ?s"
    using assms by (simp add: keep_top_def slice_to_negative)
  have l: "length ?s = length (liquidity_filter ml (collected lib net limit srcs w))"
    by (metis mset_rank size_mset)
  show ?thesis
    using a t l assms by auto
qed

theorem negative_top_n_witness:
  "(- 1 :: int) < 0
   \<and> (\<exists>r w'. aggregate_markets demo_lib (demo_net (Inr two_manifold) (Inr two_polymarket))
                [''manifold'', ''polymarket''] 200 None (Some (- 1)) demo_world = (Inr r, w')
        \<and> map id' r = [PStr ''b'', PStr ''c'', PStr ''a''] \<and> int (length r) > - 1)"
proof -
  have h: "(- 1 :: int) < 0" by simp
  have c: "map id' (take (length (rank demo_lib (liquidity_filter None (collected demo_lib
                 (demo_net (Inr two_manifold) (Inr two_polymarket)) 200
                 [''manifold'', ''polymarket''] demo_world))) - nat (- (- 1)))
             (rank demo_lib (liquidity_filter None (collected demo_lib
                 (demo_net (Inr two_manifold) (Inr two_polymarket)) 200
                 [''manifold'', ''polymarket''] demo_world))))
       = [PStr ''b'', PStr ''c'', PStr ''a'']"
    by code_simp
  show ?thesis
    using negative_top_n_drops_from_end [OF h, of demo_lib
        "demo_net (Inr two_manifold) (Inr two_polymarket)"
        "[''manifold'', ''polymarket'']" 200 None demo_world] c
    by auto
qed

section \<open>Filtering, failing sources and unknown names\<close>

lemma filter_liquidity:
  "liquidity_filter (Some t) ms = filter (\<lambda>m. fl_le t (liquidity_key m)) ms"
  by (simp add: liquidity_filter_def or_zero_liquidity)

text \<open>
  C5. With \<open>min_liquidity = t\<close> the aggregator ranks and truncates exactly the markets
  of the concatenation whose liquidity, with \<^verbatim>\<open>None\<close> as zero, is at least \<open>t\<close>, each as
  often as it occurs there. For the threshold 50 and the liquidities \<^verbatim>\<open>None\<close>, 10, 50, 100
  the filter keeps exactly the markets with 50 and 100.
\<close>
theorem min_liquidity_keeps_at_least_threshold:
  "\<exists>passed w'.
      aggregate_markets lib net srcs limit (Some t) tn w = (Inr (keep_top tn (rank lib passed)), w')
    \<and> passed = filter (\<lambda>m. fl_le t (liquidity_key m)) (collected lib net limit srcs w)
    \<and> mset (rank lib passed) = filter_mset (\<lambda>m. fl_le t (liquidity_key m)) (mset (collected lib net limit srcs w))
    \<and> liquidity_key (m\<lparr>liquidity := None\<rparr>) = Fin 0
    \<and> liquidity_filter (Some (Fin 50))
         [m\<lparr>liquidity := None\<rparr>, m\<lparr>liquidity := Some (Fin 10)\<rparr>,
          m\<lparr>liquidity := Some (Fin 50)\<rparr>, m\<lparr>liquidity := Some (Fin 100)\<rparr>]
        = [m\<lparr>liquidity := Some (Fin 50)\<rparr>, m\<lparr>liquidity := Some (Fin 100)\<rparr>]"
proof -
  from aggregate_markets_collected [of lib net srcs limit "Some t" tn w]
  obtain w' where a: "aggregate_markets lib net srcs limit (Some t) tn w
      = (Inr (keep_top tn (rank lib (liquidity_filter (Some t) (collected lib net limit srcs w)))), w')"
    by blast
  have ex: "liquidity_filter (Some (Fin 50))
         [m\<lparr>liquidity := None\<rparr>, m\<lparr>liquidity := Some (Fin 10)\<rparr>,
          m\<lparr>liquidity := Some (Fin 50)\<rparr>, m\<lparr>liquidity := Some (Fin 100)\<rparr>]
        = [m\<lparr>liquidity := Some (Fin 50)\<rparr>, m\<lparr>liquidity := Some (Fin 100)\<rparr>]"
    by (simp add: liquidity_filter_def or_zero_def fl_le_def less_eq_prod_def)
  have z: "liquidity_key (m\<lparr>liquidity := None\<rparr>) = Fin 0"
    by (simp add: liquidity_key_def)
  show ?thesis
    using a ex z by (simp add: filter_liquidity mset_rank)
qed

theorem min_liquidity_witness:
  "\<exists>r w'. aggregate_markets demo_lib (demo_net (Inr four_manifold) (Inr two_polymarket))
             [''manifold''] 200 (Some (Fin 50)) None demo_world = (Inr r, w')
      \<and> map liquidity (collected demo_lib (demo_net (Inr four_manifold) (Inr two_polymarket)) 200
             [''manifold''] demo_world) = [None, Some (Fin 10), Some (Fin 50), Some (Fin 100)]
      \<and> map liquidity r = [Some (Fin 50), Some (Fin 100)]"
proof -
  let ?all = "collected demo_lib (demo_net (Inr four_manifold) (Inr two_polymarket)) 200
             [''manifold''] demo_world"
  have c: "map liquidity ?all = [None, Some (Fin 10), Some (Fin 50), Some (Fin 100)]"
    by code_simp
  have d: "map liquidity (keep_top None (rank demo_lib (filter (\<lambda>m. fl_le (Fin 50) (liquidity_key m)) ?all)))
           = [Some (Fin 50), Some (Fin 100)]"
    by code_simp
  from min_liquidity_keeps_at_least_threshold [of demo_lib
        "demo_net (Inr four_manifold) (Inr two_polymarket)" "[''manifold'']" 200 "Fin 50" None demo_world]
  obtain w' where a: "aggregate_markets demo_lib (demo_net (Inr four_manifold) (Inr two_polymarket))
             [''manifold''] 200 (Some (Fin 50)) None demo_world
        = (Inr (keep_top None (rank demo_lib (filter (\<lambda>m. fl_le (Fin 50) (liquidity_key m)) ?all))), w')"
    by blast
  show ?thesis
    unfolding a using c d by simp
qed

lemma logged_succeeded: "list_all succeeded xs \<Longrightarrow> concat (map logged xs) = []"
  by (induction xs) (auto simp add: succeeded_def logged_def split: sum.splits)

lemma contributed_failed: "contributed (src, Inl exc) = []"
  by (simp add: contributed_def)

lemma logged_failed: "logged (src, Inl exc) = [diagnostic src exc]"
  by (simp add: logged_def)

text \<open>
  C8. When the fetch of one requested source raises and the fetches of the others
  return, \<open>aggregate_markets\<close> does not raise; it writes exactly one line to the error
  channel, the diagnostic that names the failed source; the failed source contributes
  no market, and the result is the filtered, ranked and truncated concatenation of what
  the other sources returned: without \<open>min_liquidity\<close> and \<open>top_n\<close>, exactly their markets.
\<close>
theorem source_error_is_caught_and_logged:
  assumes "outcomes lib net limit srcs w = before @ (src, Inl exc) # after"
    and "list_all succeeded (before @ after)"
  shows "\<exists>r w'. aggregate_markets lib net srcs limit ml tn w = (Inr r, w')
      \<and> r = keep_top tn (rank lib (liquidity_filter ml (concat (map contributed (before @ after)))))
      \<and> stderr w' = stderr w @ [diagnostic src exc]
      \<and> (ml = None \<and> tn = None \<longrightarrow> mset r = mset (concat (map contributed (before @ after))))"
proof -
  from aggregate_markets_collected [of lib net srcs limit ml tn w]
  obtain w' where a: "aggregate_markets lib net srcs limit ml tn w
      = (Inr (keep_top tn (rank lib (liquidity_filter ml (collected lib net limit srcs w)))), w')"
    and e: "stderr w' = stderr w @ concat (map logged (outcomes lib net limit srcs w))"
    by blast
  have c: "collected lib net limit srcs w = concat (map contributed (before @ after))"
    by (simp add: collected_def assms(1) contributed_failed)
  from assms(2) have "list_all succeeded before" "list_all succeeded after"
    by simp_all
  then have l: "concat (map logged (outcomes lib net limit srcs w)) = [diagnostic src exc]"
    by (simp add: assms(1) logged_succeeded logged_failed)
  have n: "mset (keep_top None (rank lib (liquidity_filter None xs))) = mset xs" for xs
    by (simp add: keep_top_def liquidity_filter_def mset_rank)
  show ?thesis
    using a e c l n by auto
qed

theorem source_error_witness:
  "outcomes demo_lib (demo_net (Inl timed_out) (Inr two_polymarket)) 200
       [''manifold'', ''polymarket''] demo_world
     = [] @ (''manifold'', Inl timed_out)
         # tl (outcomes demo_lib (demo_net (Inl timed_out) (Inr two_polymarket)) 200
                 [''manifold'', ''polymarket''] demo_world)
   \<and> list_all succeeded ([] @ tl (outcomes demo_lib (demo_net (Inl timed_out) (Inr two_polymarket))
                 200 [''manifold'', ''polymarket''] demo_world))
   \<and> (\<exists>r w'. aggregate_markets demo_lib (demo_net (Inl timed_out) (Inr two_polymarket))
                [''manifold'', ''polymarket''] 200 None None demo_world = (Inr r, w')
        \<and> map id' r = [PStr ''c'', PStr ''d'']
        \<and> stderr w' = [''[prediction_aggregator] source manifold failed: timed out'' @ [CHR 0x0A]])"
proof -
  let ?net = "demo_net (Inl timed_out) (Inr two_polymarket)"
  let ?outs = "outcomes demo_lib ?net 200 [''manifold'', ''polymarket''] demo_world"
  have h1: "?outs = [] @ (''manifold'', Inl timed_out) # tl ?outs"
    by code_simp
  have h2: "list_all succeeded ([] @ tl ?outs)"
    by code_simp
  have c: "map id' (keep_top None (rank demo_lib (liquidity_filter None
              (concat (map contributed ([] @ tl ?outs)))))) = [PStr ''c'', PStr ''d'']"
    by code_simp
  have d: "stderr demo_world @ [diagnostic ''manifold'' timed_out]
           = [''[prediction_aggregator] source manifold failed: timed out'' @ [CHR 0x0A]]"
    by code_simp
  show ?thesis
    using source_error_is_caught_and_logged [OF h1 h2, of None None] h1 h2 c d
    by auto
qed

lemma fetch_source_reqs_cong:
  "reqs w1 = reqs w2 \<Longrightarrow>
   fst (fetch_source lib net limit src w1) = fst (fetch_source lib net limit src w2)
   \<and> reqs (snd (fetch_source lib net limit src w1)) = reqs (snd (fetch_source lib net limit src w2))"
  by (simp add: fetch_source_def fetch_manifold_def fetch_polymarket_def urlopen_json_def Let_def)

lemma sources_loop_reqs_cong:
  "reqs w1 = reqs w2 \<Longrightarrow>
   fst (sources_loop lib net limit srcs all w1) = fst (sources_loop lib net limit srcs all w2)
   \<and> reqs (snd (sources_loop lib net limit srcs all w1))
       = reqs (snd (sources_loop lib net limit srcs all w2))"
proof (induction srcs arbitrary: all w1 w2)
  case Nil
  then show ?case by simp
next
  case (Cons src rest)
  obtain r1 v1 where f1: "fetch_source lib net limit src w1 = (r1, v1)"
    by (cases "fetch_source lib net limit src w1")
  obtain r2 v2 where f2: "fetch_source lib net limit src w2 = (r2, v2)"
    by (cases "fetch_source lib net limit src w2")
  from fetch_source_reqs_cong [OF Cons.prems, of lib net limit src]
  have eq: "r1 = r2" "reqs v1 = reqs v2"
    by (simp_all add: f1 f2)
  show ?case
  proof (cases r1)
    case (Inl exc)
    have "reqs (v1\<lparr>stderr := stderr v1 @ [diagnostic src exc]\<rparr>)
          = reqs (v2\<lparr>stderr := stderr v2 @ [diagnostic src exc]\<rparr>)"
      using eq by simp
    from Cons.IH [OF this, of all]
    show ?thesis using eq Inl by (auto simp add: f1 f2)
  next
    case (Inr ms)
    from Cons.IH [OF eq(2), of "all @ ms"]
    show ?thesis using eq Inr by (auto simp add: f1 f2)
  qed
qed

lemma fetch_source_unknown:
  "\<not> known src \<Longrightarrow> fetch_source lib net limit src w
      = (Inl (Exn ''ValueError'' (''Unknown source: '' @ src)), w)"
  by (simp add: fetch_source_def known_def)

lemma sources_loop_known:
  "fst (sources_loop lib net limit srcs all w)
     = fst (sources_loop lib net limit (filter known srcs) all w)
   \<and> reqs (snd (sources_loop lib net limit srcs all w))
     = reqs (snd (sources_loop lib net limit (filter known srcs) all w))"
proof (induction srcs arbitrary: all w)
  case Nil
  show ?case by simp
next
  case (Cons src rest)
  show ?case
  proof (cases "known src")
    case True
    obtain r w1 where f: "fetch_source lib net limit src w = (r, w1)"
      by (cases "fetch_source lib net limit src w")
    show ?thesis
      using True Cons.IH by (cases r) (simp_all add: f)
  next
    case False
    have "reqs (w\<lparr>stderr := stderr w @ [diagnostic src (Exn ''ValueError'' (''Unknown source: '' @ src))]\<rparr>) = reqs w"
      by simp
    from sources_loop_reqs_cong [OF this, of lib net limit rest all]
    show ?thesis
      using False Cons.IH [of all w] by (simp add: fetch_source_unknown)
  qed
qed

lemma outcomes_names: "map fst (outcomes lib net limit srcs w) = srcs"
proof (induction srcs arbitrary: w)
  case Nil
  show ?case by simp
next
  case (Cons s rest)
  obtain r w1 where f: "fetch_source lib net limit s w = (r, w1)"
    by (cases "fetch_source lib net limit s w")
  show ?case
    using Cons.IH [of w1] by (simp add: f)
qed

lemma unknown_outcome:
  "oc \<in> set (outcomes lib net limit srcs w) \<Longrightarrow> \<not> known (fst oc) \<Longrightarrow>
   snd oc = Inl (Exn ''ValueError'' (''Unknown source: '' @ fst oc))"
proof (induction srcs arbitrary: w)
  case Nil
  then show ?case by simp
next
  case (Cons s rest)
  obtain r w1 where f: "fetch_source lib net limit s w = (r, w1)"
    by (cases "fetch_source lib net limit s w")
  from Cons.prems(1) have "oc = (s, r) \<or> oc \<in> set (outcomes lib net limit rest w1)"
    by (simp add: f)
  then show ?case
  proof
    assume e: "oc = (s, r)"
    then have "\<not> known s"
      using Cons.prems(2) by simp
    then have "r = Inl (Exn ''ValueError'' (''Unknown source: '' @ s))"
      using f by (simp add: fetch_source_unknown)
    then show ?thesis
      using e by simp
  next
    assume "oc \<in> set (outcomes lib net limit rest w1)"
    then show ?thesis
      using Cons.prems(2) by (rule Cons.IH)
  qed
qed

lemma logged_unknown:
  "logged (src, Inl (Exn ''ValueError'' (''Unknown source: '' @ src))) = [unknown_line src]"
  by (simp add: logged_def unknown_line_def)

lemma logged_when_known_succeed:
  "list_all succeeded (filter (\<lambda>oc. known (fst oc)) (outcomes lib net limit srcs w)) \<Longrightarrow>
   concat (map logged (outcomes lib net limit srcs w))
     = map unknown_line (filter (\<lambda>s. \<not> known s) srcs)"
proof (induction srcs arbitrary: w)
  case Nil
  show ?case by simp
next
  case (Cons s rest)
  obtain r w1 where f: "fetch_source lib net limit s w = (r, w1)"
    by (cases "fetch_source lib net limit s w")
  show ?case
  proof (cases "known s")
    case True
    from Cons.prems have s: "succeeded (s, r)"
      and rest: "list_all succeeded (filter (\<lambda>oc. known (fst oc)) (outcomes lib net limit rest w1))"
      using True by (simp_all add: f)
    from s have "logged (s, r) = []"
      by (simp add: succeeded_def logged_def split: sum.splits)
    then show ?thesis
      using Cons.IH [OF rest] True by (simp add: f)
  next
    case False
    then have r: "r = Inl (Exn ''ValueError'' (''Unknown source: '' @ s))" and w1: "w1 = w"
      using f by (simp_all add: fetch_source_unknown)
    from Cons.prems have
      rest: "list_all succeeded (filter (\<lambda>oc. known (fst oc)) (outcomes lib net limit rest w1))"
      using False by (simp add: f)
    have "logged (s, r) = [unknown_line s]"
      unfolding r by (rule logged_unknown)
    then show ?thesis
      using Cons.IH [OF rest] False by (simp add: f)
  qed
qed

text \<open>
  C1, as the code has it. A name that is neither \<^verbatim>\<open>manifold\<close> nor \<^verbatim>\<open>polymarket\<close> does not
  make \<open>aggregate_markets\<close> raise. The call returns; what it appends to the error channel
  is, source by source in the order of the list, the line of each source that failed;
  each occurrence of an unknown name fails with
  \<^verbatim>\<open>source <name> failed: Unknown source: <name>\<close>, exactly one line, and contributes no
  market, so a name listed twice leaves its line twice; when the known sources all
  return, these lines are all that is written. The markets returned and the requests
  sent are those of the same call without the unknown names, so every known source of
  the list is still fetched.
\<close>

theorem unknown_source_is_logged_not_raised:
  assumes "src \<in> set srcs" and "\<not> known src"
  shows "\<exists>r w'. aggregate_markets lib net srcs limit ml tn w = (Inr r, w')
     \<and> stderr w' = stderr w @ concat (map logged (outcomes lib net limit srcs w))
     \<and> map fst (outcomes lib net limit srcs w) = srcs
     \<and> (\<forall>oc \<in> set (outcomes lib net limit srcs w).
           \<not> known (fst oc) \<longrightarrow> logged oc = [unknown_line (fst oc)] \<and> contributed oc = [])
     \<and> unknown_line src \<in> set (stderr w')
     \<and> (list_all succeeded (filter (\<lambda>oc. known (fst oc)) (outcomes lib net limit srcs w))
          \<longrightarrow> stderr w' = stderr w @ map unknown_line (filter (\<lambda>s. \<not> known s) srcs))
     \<and> fst (aggregate_markets lib net (filter known srcs) limit ml tn w) = Inr r
     \<and> reqs (snd (aggregate_markets lib net (filter known srcs) limit ml tn w)) = reqs w'"
proof -
  let ?outs = "outcomes lib net limit srcs w"
  from aggregate_markets_collected [of lib net srcs limit ml tn w]
  obtain w' where a: "aggregate_markets lib net srcs limit ml tn w
      = (Inr (keep_top tn (rank lib (liquidity_filter ml (collected lib net limit srcs w)))), w')"
    and e: "stderr w' = stderr w @ concat (map logged ?outs)"
    by blast
  have u: "logged oc = [unknown_line (fst oc)] \<and> contributed oc = []"
    if "oc \<in> set ?outs" "\<not> known (fst oc)" for oc
    using unknown_outcome [OF that] by (simp add: logged_def contributed_def unknown_line_def)
  have "src \<in> set (map fst ?outs)"
    using assms(1) by (simp only: outcomes_names)
  then obtain oc where oc: "oc \<in> set ?outs" "fst oc = src"
    by auto
  then have "logged oc = [unknown_line src]"
    using u [of oc] assms(2) by simp
  then have "unknown_line src \<in> set (concat (map logged ?outs))"
    using oc(1) by force
  then have d: "unknown_line src \<in> set (stderr w')"
    using e by simp
  have k: "stderr w' = stderr w @ map unknown_line (filter (\<lambda>s. \<not> known s) srcs)"
    if "list_all succeeded (filter (\<lambda>oc. known (fst oc)) ?outs)"
    using e logged_when_known_succeed [OF that] by simp
  obtain x1 v1 where l1: "sources_loop lib net limit srcs [] w = (x1, v1)"
    by (cases "sources_loop lib net limit srcs [] w")
  obtain x2 v2 where l2: "sources_loop lib net limit (filter known srcs) [] w = (x2, v2)"
    by (cases "sources_loop lib net limit (filter known srcs) [] w")
  from sources_loop_known [of lib net limit srcs "[]" w]
  have q: "x1 = x2" "reqs v1 = reqs v2"
    by (simp_all add: l1 l2)
  have "fst (aggregate_markets lib net (filter known srcs) limit ml tn w)
          = fst (aggregate_markets lib net srcs limit ml tn w)
       \<and> reqs (snd (aggregate_markets lib net (filter known srcs) limit ml tn w))
          = reqs (snd (aggregate_markets lib net srcs limit ml tn w))"
    using q by (cases x2) (simp_all add: aggregate_markets_def l1 l2)
  then have f: "fst (aggregate_markets lib net (filter known srcs) limit ml tn w)
          = Inr (keep_top tn (rank lib (liquidity_filter ml (collected lib net limit srcs w))))"
    and g: "reqs (snd (aggregate_markets lib net (filter known srcs) limit ml tn w)) = reqs w'"
    using a by simp_all
  show ?thesis
    using a e outcomes_names u d k f g by blast
qed

theorem unknown_source_witness:
  "''nope'' \<in> set [''nope'', ''manifold'', ''nope''] \<and> \<not> known ''nope''
   \<and> list_all succeeded (filter (\<lambda>oc. known (fst oc))
        (outcomes demo_lib (demo_net (Inr two_manifold) (Inr two_polymarket)) 200
           [''nope'', ''manifold'', ''nope''] demo_world))
   \<and> (\<exists>r w'. aggregate_markets demo_lib (demo_net (Inr two_manifold) (Inr two_polymarket))
                [''nope'', ''manifold'', ''nope''] 200 None None demo_world = (Inr r, w')
        \<and> stderr w'
            = [''[prediction_aggregator] source nope failed: Unknown source: nope'' @ [CHR 0x0A],
               ''[prediction_aggregator] source nope failed: Unknown source: nope'' @ [CHR 0x0A]]
        \<and> fst (aggregate_markets demo_lib (demo_net (Inr two_manifold) (Inr two_polymarket))
                [''manifold''] 200 None None demo_world) = Inr r)"
proof -
  let ?net = "demo_net (Inr two_manifold) (Inr two_polymarket)"
  let ?srcs = "[''nope'', ''manifold'', ''nope'']"
  have h1: "''nope'' \<in> set ?srcs" by simp
  have h2: "\<not> known ''nope''" by (simp add: known_def)
  have h3: "list_all succeeded (filter (\<lambda>oc. known (fst oc))
              (outcomes demo_lib ?net 200 ?srcs demo_world))"
    by code_simp
  have f: "filter known ?srcs = [''manifold'']"
    by (simp add: known_def)
  have d: "stderr demo_world @ map unknown_line (filter (\<lambda>s. \<not> known s) ?srcs)
           = [''[prediction_aggregator] source nope failed: Unknown source: nope'' @ [CHR 0x0A],
              ''[prediction_aggregator] source nope failed: Unknown source: nope'' @ [CHR 0x0A]]"
    by (simp add: known_def unknown_line_def diagnostic_def demo_world_def)
  from unknown_source_is_logged_not_raised [OF h1 h2, of demo_lib ?net 200 None None demo_world]
  obtain r w' where a: "aggregate_markets demo_lib ?net ?srcs 200 None None demo_world = (Inr r, w')"
    and k: "list_all succeeded (filter (\<lambda>oc. known (fst oc))
              (outcomes demo_lib ?net 200 ?srcs demo_world))
          \<longrightarrow> stderr w' = stderr demo_world @ map unknown_line (filter (\<lambda>s. \<not> known s) ?srcs)"
    and g: "fst (aggregate_markets demo_lib ?net (filter known ?srcs) 200 None None demo_world) = Inr r"
    by blast
  from k h3 have "stderr w' = stderr demo_world @ map unknown_line (filter (\<lambda>s. \<not> known s) ?srcs)"
    by blast
  then have s: "stderr w'
      = [''[prediction_aggregator] source nope failed: Unknown source: nope'' @ [CHR 0x0A],
         ''[prediction_aggregator] source nope failed: Unknown source: nope'' @ [CHR 0x0A]]"
    by (simp only: d)
  from g have g': "fst (aggregate_markets demo_lib ?net [''manifold''] 200 None None demo_world) = Inr r"
    by (simp only: f)
  show ?thesis
    using h1 h2 h3 a s g' by blast
qed

text \<open>
  The claim C1 as stated fails: with the sources \<^verbatim>\<open>nope\<close>, \<^verbatim>\<open>manifold\<close> the call returns
  the two markets of manifold instead of raising, after one request, and the unknown
  name is only logged.
\<close>

theorem unknown_source_counterexample:
  "\<not> isl (fst (aggregate_markets demo_lib (demo_net (Inr two_manifold) (Inr two_polymarket))
                [''nope'', ''manifold''] 200 None None demo_world))
   \<and> map id' (projr (fst (aggregate_markets demo_lib (demo_net (Inr two_manifold) (Inr two_polymarket))
                [''nope'', ''manifold''] 200 None None demo_world))) = [PStr ''b'', PStr ''a'']
   \<and> length (reqs (snd (aggregate_markets demo_lib (demo_net (Inr two_manifold) (Inr two_polymarket))
                [''nope'', ''manifold''] 200 None None demo_world))) = 1
   \<and> stderr (snd (aggregate_markets demo_lib (demo_net (Inr two_manifold) (Inr two_polymarket))
                [''nope'', ''manifold''] 200 None None demo_world))
       = [''[prediction_aggregator] source nope failed: Unknown source: nope'' @ [CHR 0x0A]]"
  by code_simp

section \<open>What the normalizer returns\<close>

lemma try_except_returns: "\<exists>r. try_except x (\<lambda>e. Inr None) = Inr r"
  by (cases x) simp_all

lemma to_iso_returns: "\<exists>r. to_iso lib ts = Inr r"
  by (simp add: to_iso_def try_except_returns)

text \<open>
  C3. The normalizer never raises: whatever the value and the library, it returns. But
  what it returns for a number need not be canonical. \<^verbatim>\<open>_to_iso(-62135596800000)\<close>, the
  first second of the year 1, returns \<^verbatim>\<open>1-01-01T00:00:00Z\<close> where the C library does not
  pad \<^verbatim>\<open>%Y\<close>: a string that is neither \<^verbatim>\<open>None\<close> nor of the canonical pattern, and not
  ISO 8601, which is what the docstring of \<^verbatim>\<open>_to_iso\<close> promises.
\<close>

theorem to_iso_returns_but_year_one_is_not_canonical:
  "(\<forall>lib ts. \<exists>r. to_iso lib ts = Inr r)
   \<and> to_iso demo_lib (PInt (- 62135596800000)) = Inr (Some ''1-01-01T00:00:00Z'')
   \<and> \<not> canonical ''1-01-01T00:00:00Z''"
proof -
  have a: "\<forall>lib ts. \<exists>r. to_iso lib ts = Inr r"
    using to_iso_returns by blast
  have b: "to_iso demo_lib (PInt (- 62135596800000)) = Inr (Some ''1-01-01T00:00:00Z'')"
    by code_simp
  have c: "\<not> canonical ''1-01-01T00:00:00Z''"
    by code_simp
  show ?thesis
    using a b c by blast
qed

text \<open>
  C7. \<^verbatim>\<open>_to_iso(-30610224001000)\<close>, the last second of the year 999 in milliseconds since
  the epoch, is within the range of \<^verbatim>\<open>datetime\<close>, and the normalizer returns
  \<^verbatim>\<open>999-12-31T23:59:59Z\<close> for it where the C library does not pad \<^verbatim>\<open>%Y\<close>: three digits
  of year, not the canonical pattern. One second later the year has four digits and the
  result is canonical; and a library that pads prints \<^verbatim>\<open>0999\<close>, so the result depends
  on the platform.
\<close>

theorem to_iso_year_999_is_not_canonical:
  "in_range (- 30610224001000 * 1000)
   \<and> to_iso demo_lib (PInt (- 30610224001000)) = Inr (Some ''999-12-31T23:59:59Z'')
   \<and> \<not> canonical ''999-12-31T23:59:59Z''
   \<and> to_iso demo_lib (PInt (- 30610224000000)) = Inr (Some ''1000-01-01T00:00:00Z'')
   \<and> canonical ''1000-01-01T00:00:00Z''
   \<and> to_iso (demo_lib\<lparr>year_padded := True\<rparr>) (PInt (- 30610224001000))
       = Inr (Some ''0999-12-31T23:59:59Z'')"
  by code_simp

section \<open>The adapters: records and events\<close>

text \<open>
  C2. Neither adapter skips a record it cannot map. The loop of \<^verbatim>\<open>fetch_manifold\<close> has no
  \<^verbatim>\<open>try\<close>: on a batch whose second record has the volume \<^verbatim>\<open>n/a\<close>, \<^verbatim>\<open>float\<close> raises
  ValueError and the exception leaves the fetch, so the first record, which converts on
  its own, is lost with it. \<^verbatim>\<open>fetch_polymarket\<close> fails in the same way on an event whose
  market has that volume, although its docstring says that the aggregator will simply
  skip fields it cannot map. The aggregator then logs each source as failed and returns
  no market at all.
\<close>

theorem bad_record_fails_whole_fetch:
  "fst (fetch_manifold demo_lib (demo_net (Inr bad_batch) (Inr bad_events)) 200 demo_world)
     = Inl (Exn ''ValueError'' ''float'')
   \<and> map id' (projr (fst (fetch_manifold demo_lib
        (demo_net (Inr (PList [PDict [(''id'', PStr ''a''), (''volume24Hours'', PInt 10)]]))
           (Inr bad_events)) 200 demo_world))) = [PStr ''a'']
   \<and> fst (fetch_polymarket demo_lib (demo_net (Inr bad_batch) (Inr bad_events)) 200 demo_world)
     = Inl (Exn ''ValueError'' ''float'')
   \<and> fst (aggregate_markets demo_lib (demo_net (Inr bad_batch) (Inr bad_events))
            [''manifold'', ''polymarket''] 200 None None demo_world) = Inr []
   \<and> stderr (snd (aggregate_markets demo_lib (demo_net (Inr bad_batch) (Inr bad_events))
            [''manifold'', ''polymarket''] 200 None None demo_world))
       = [''[prediction_aggregator] source manifold failed: float'' @ [CHR 0x0A],
          ''[prediction_aggregator] source polymarket failed: float'' @ [CHR 0x0A]]"
  by code_simp

section \<open>The best market of an event\<close>

text \<open>
  C6. An event with markets can yield no Market. For the markets
  \<^verbatim>\<open>[{}, {"id": "x", "volume": 0}]\<close> the loop selects the first one, whose volume counts
  as \<open>0.0\<close>, greater than the initial \<open>-1.0\<close>; the second does not replace it, its
  volume not being strictly greater; and the selected market, an empty dict, is falsy, so
  \<^verbatim>\<open>if not best_market: continue\<close> skips the event, against the comment of the code,
  \<^verbatim>\<open>choose the main one (highest volume)\<close>. On the volumes 5, 40 and 12 the adapter does
  take the fields of the market with 40.
\<close>

theorem empty_first_market_drops_event:
  "event_markets demo_lib empty_first_market
     = Inr [PDict [], PDict [(''id'', PStr ''x''), (''volume'', PInt 0)]]
   \<and> select_best demo_lib [PDict [], PDict [(''id'', PStr ''x''), (''volume'', PInt 0)]]
        PNone (Fin (- 1)) = Inr (PDict [], Fin 0)
   \<and> polymarket_event demo_lib empty_first_market = Inr None
   \<and> polymarket_markets demo_lib (PList [empty_first_market]) = Inr []
   \<and> polymarket_event demo_lib three_markets
       = Inr (Some \<lparr>source = ''polymarket'', id' = PStr ''b'', question = PStr ''t'',
                     url = ''https://polymarket.com/event/s'', outcome_type = ''multi'',
                     probability = PNone, implied_odds = PNone,
                     volume_24h = Some (Fin 40), liquidity = Some (Fin 7),
                     created_at = None, close_time = None\<rparr>)"
  by code_simp

section \<open>Emission\<close>

lemma fetch_source_keeps_files:
  "fetch_source lib net limit src w = (r, w') \<Longrightarrow>
     files w' = files w \<and> mkdirs w' = mkdirs w \<and> stdout w' = stdout w"
  by (auto simp add: fetch_source_def fetch_manifold_def fetch_polymarket_def urlopen_json_def
        Let_def split: if_splits)

lemma sources_loop_keeps_files:
  "sources_loop lib net limit srcs all w = (r, w') \<Longrightarrow>
     files w' = files w \<and> mkdirs w' = mkdirs w \<and> stdout w' = stdout w"
proof (induction srcs arbitrary: all w)
  case Nil
  then show ?case by auto
next
  case (Cons src rest)
  obtain x w1 where f: "fetch_source lib net limit src w = (x, w1)"
    by (cases "fetch_source lib net limit src w")
  note k = fetch_source_keeps_files [OF f]
  show ?case
  proof (cases x)
    case (Inl exc)
    with Cons.prems f
    have "sources_loop lib net limit rest all (w1\<lparr>stderr := stderr w1 @ [diagnostic src exc]\<rparr>)
          = (r, w')"
      by simp
    from Cons.IH [OF this] show ?thesis
      using k by simp
  next
    case (Inr ms)
    with Cons.prems f
    have "sources_loop lib net limit rest (all @ ms) w1 = (r, w')"
      by simp
    from Cons.IH [OF this] show ?thesis
      using k by simp
  qed
qed

lemma aggregate_markets_keeps_files:
  assumes "aggregate_markets lib net srcs limit ml tn w = (r, w')"
  shows "files w' = files w \<and> mkdirs w' = mkdirs w \<and> stdout w' = stdout w"
proof -
  obtain x w1 where l: "sources_loop lib net limit srcs [] w = (x, w1)"
    by (cases "sources_loop lib net limit srcs [] w")
  have "w' = w1"
    using assms l by (cases x) (simp_all add: aggregate_markets_def)
  then show ?thesis
    using sources_loop_keeps_files [OF l] by simp
qed

text \<open>
  C9, as the code has it. \<open>main\<close> serialises the snapshot before it touches the
  destination: when \<^verbatim>\<open>json.dumps\<close> raises, the exception leaves \<open>main\<close> with no file
  changed and no directory asked for; when \<^verbatim>\<open>mkdir\<close> or opening the file raises, no
  file has changed; and when nothing fails the file holds exactly the text.
\<close>
theorem serialization_precedes_destination:
  assumes "aggregate_markets lib net (arg_sources a) (arg_limit a) (arg_min_liquidity a)
             (arg_top_n a) w = (Inr ms, w1)"
  shows "(dumps sy (snapshot sy a ms) = Inl exc
           \<longrightarrow> main lib net sy a w = (Inl exc, w1) \<and> files w1 = files w \<and> mkdirs w1 = mkdirs w)
    \<and> (dumps sy (snapshot sy a ms) = Inr text \<and> arg_out a \<noteq> ''-''
          \<and> (mkdir_fault sy = Some exc \<or> mkdir_fault sy = None \<and> open_fault sy = Some exc)
           \<longrightarrow> fst (main lib net sy a w) = Inl exc \<and> files (snd (main lib net sy a w)) = files w)
    \<and> (dumps sy (snapshot sy a ms) = Inr text \<and> arg_out a \<noteq> ''-''
          \<and> mkdir_fault sy = None \<and> open_fault sy = None \<and> write_fault sy = None
           \<longrightarrow> fst (main lib net sy a w) = Inr 0
             \<and> files (snd (main lib net sy a w)) = (files w)(arg_out a \<mapsto> text))"
proof -
  note k = aggregate_markets_keeps_files [OF assms]
  have a: "main lib net sy a w = (Inl exc, w1)" if "dumps sy (snapshot sy a ms) = Inl exc"
    using assms that by (simp add: main_def)
  have b: "fst (main lib net sy a w) = Inl exc \<and> files (snd (main lib net sy a w)) = files w"
    if "dumps sy (snapshot sy a ms) = Inr text" "arg_out a \<noteq> ''-''"
      "mkdir_fault sy = Some exc \<or> mkdir_fault sy = None \<and> open_fault sy = Some exc"
    using assms that k by (auto simp add: main_def mkdir_parents_def write_text_def)
  have c: "fst (main lib net sy a w) = Inr 0
             \<and> files (snd (main lib net sy a w)) = (files w)(arg_out a \<mapsto> text)"
    if "dumps sy (snapshot sy a ms) = Inr text" "arg_out a \<noteq> ''-''"
      "mkdir_fault sy = None" "open_fault sy = None" "write_fault sy = None"
    using assms that k by (simp add: main_def mkdir_parents_def write_text_def Let_def)
  show ?thesis
    using a b c k by blast
qed

theorem serialization_witness:
  "arg_sources demo_args = [''manifold'']
   \<and> (\<exists>ms w1. aggregate_markets demo_lib (demo_net (Inr two_manifold) (Inr two_polymarket))
         (arg_sources demo_args) (arg_limit demo_args) (arg_min_liquidity demo_args)
         (arg_top_n demo_args) old_world = (Inr ms, w1))
   \<and> arg_out demo_args \<noteq> ''-''
   \<and> mkdir_fault (demo_sys None) = None \<and> open_fault (demo_sys None) = None
   \<and> write_fault (demo_sys None) = None
   \<and> fst (main demo_lib (demo_net (Inr two_manifold) (Inr two_polymarket)) (demo_sys None)
            demo_args old_world) = Inr 0
   \<and> files (snd (main demo_lib (demo_net (Inr two_manifold) (Inr two_polymarket)) (demo_sys None)
            demo_args old_world)) = (files old_world)(arg_out demo_args \<mapsto> ''new snapshot'')
   \<and> fst (main demo_lib (demo_net (Inr two_manifold) (Inr two_polymarket))
        (demo_sys None\<lparr>dumps := \<lambda>pl. Inl disk_full\<rparr>) demo_args old_world) = Inl disk_full
   \<and> files (snd (main demo_lib (demo_net (Inr two_manifold) (Inr two_polymarket))
        (demo_sys None\<lparr>dumps := \<lambda>pl. Inl disk_full\<rparr>) demo_args old_world)) = files old_world"
proof -
  let ?net = "demo_net (Inr two_manifold) (Inr two_polymarket)"
  from aggregate_markets_collected [of demo_lib ?net "arg_sources demo_args" "arg_limit demo_args"
      "arg_min_liquidity demo_args" "arg_top_n demo_args" old_world]
  obtain ms w1 where h: "aggregate_markets demo_lib ?net (arg_sources demo_args)
       (arg_limit demo_args) (arg_min_liquidity demo_args) (arg_top_n demo_args) old_world
       = (Inr ms, w1)"
    by blast
  have d0: "arg_sources demo_args = [''manifold'']"
    by (simp add: demo_args_def)
  have d1: "dumps (demo_sys None) (snapshot (demo_sys None) demo_args ms) = Inr ''new snapshot''"
    by (simp add: demo_sys_def)
  have d2: "arg_out demo_args \<noteq> ''-''"
    by (simp add: demo_args_def)
  have d3: "mkdir_fault (demo_sys None) = None" "open_fault (demo_sys None) = None"
    "write_fault (demo_sys None) = None"
    by (simp_all add: demo_sys_def)
  have d4: "dumps (demo_sys None\<lparr>dumps := \<lambda>pl. Inl disk_full\<rparr>)
        (snapshot (demo_sys None\<lparr>dumps := \<lambda>pl. Inl disk_full\<rparr>) demo_args ms) = Inl disk_full"
    by simp
  note t1 = serialization_precedes_destination [OF h, of "demo_sys None" _ "''new snapshot''"]
  note t2 = serialization_precedes_destination [OF h,
      of "demo_sys None\<lparr>dumps := \<lambda>pl. Inl disk_full\<rparr>" disk_full]
  from t1 d1 d2 d3
  have a1: "fst (main demo_lib ?net (demo_sys None) demo_args old_world) = Inr 0
     \<and> files (snd (main demo_lib ?net (demo_sys None) demo_args old_world))
         = (files old_world)(arg_out demo_args \<mapsto> ''new snapshot'')"
    by blast
  from t2 d4
  have "main demo_lib ?net (demo_sys None\<lparr>dumps := \<lambda>pl. Inl disk_full\<rparr>) demo_args old_world
       = (Inl disk_full, w1) \<and> files w1 = files old_world"
    by blast
  then have a2: "fst (main demo_lib ?net (demo_sys None\<lparr>dumps := \<lambda>pl. Inl disk_full\<rparr>)
        demo_args old_world) = Inl disk_full
     \<and> files (snd (main demo_lib ?net (demo_sys None\<lparr>dumps := \<lambda>pl. Inl disk_full\<rparr>)
        demo_args old_world)) = files old_world"
    by simp
  show ?thesis
    using h d0 d2 d3 a1 a2 by blast
qed

text \<open>
  The claim C9 as stated fails: when the write raises after the file was opened, the
  exception leaves \<open>main\<close> and the file that held an older snapshot is left empty, or
  with the first characters of the new text.
\<close>

theorem truncated_file_counterexample:
  "fst (main demo_lib (demo_net (Inr two_manifold) (Inr two_polymarket))
          (demo_sys (Some (0, disk_full))) demo_args old_world) = Inl disk_full
   \<and> files old_world ''out.json'' = Some ''old snapshot''
   \<and> files (snd (main demo_lib (demo_net (Inr two_manifold) (Inr two_polymarket))
          (demo_sys (Some (0, disk_full))) demo_args old_world)) ''out.json'' = Some []
   \<and> files (snd (main demo_lib (demo_net (Inr two_manifold) (Inr two_polymarket))
          (demo_sys (Some (3, disk_full))) demo_args old_world)) ''out.json'' = Some ''new''"
  by code_simp

end
